theory Spec2Isabelle
  imports Main
begin

section \<open>The to-do list client of Home.jsx\<close>

text \<open>
  The source file \<^verbatim>\<open>src/js/components/Home.jsx\<close> holds two self-contained versions of the
  client. Lines 1-270 are a single component \<^verbatim>\<open>Home\<close> that keeps all state itself. Lines
  271-640 split the same client into an API service \<^verbatim>\<open>todoAPI\<close>, the presentational
  components \<^verbatim>\<open>TaskInput\<close>, \<^verbatim>\<open>ClearAllButton\<close> and \<^verbatim>\<open>UsernameForm\<close>, the container
  \<^verbatim>\<open>TodoApp\<close>, and a root \<^verbatim>\<open>Home\<close> that also reads and writes session storage.
  Both versions are embedded. The functions of the first keep their plain names
  (\<open>loadTasks\<close>, \<open>addTask\<close>, ...); those of the second carry the name of the object or
  component that declares them (\<open>todoAPI_addTask\<close>, \<open>TodoApp_loadTasks\<close>, ...). The second
  version is embedded first; a state variable that both versions declare is written with
  its record's name (\<open>home.tasks\<close>, \<open>todoApp.tasks\<close>).

  An event handler is modelled as one atomic step from the state at the click to the state
  when the handler's promise has settled. While a handler runs, \<open>loading\<close> is true and the
  task input and the Add, Clear All and delete buttons are disabled, so no second handler
  of the task view starts in between.
\<close>

subsection \<open>Strings\<close>

text \<open>
  A JavaScript string is a sequence of UTF-16 code units; \<open>string\<close> holds the code units
  below 256. \<^verbatim>\<open>String.prototype.trim\<close> removes white space and line terminators from both
  ends. In that range these are TAB, LF, VT, FF, CR, SP and NBSP.
\<close>

definition isWhiteSpace :: "char \<Rightarrow> bool" where
  "isWhiteSpace c = ((of_char c :: nat) \<in> {9, 10, 11, 12, 13, 32, 160})"

definition trim :: "string \<Rightarrow> string" where
  "trim s = rev (dropWhile isWhiteSpace (rev (dropWhile isWhiteSpace s)))"

text \<open>\<^verbatim>\<open>String(n)\<close> for a non-negative integer: its decimal digits.\<close>

definition digit :: "nat \<Rightarrow> char" where
  "digit d = char_of (48 + d)"

function String_nat :: "nat \<Rightarrow> string" where
  "String_nat n = (if n < 10 then [digit n] else String_nat (n div 10) @ [digit (n mod 10)])"
  by pat_completeness auto
termination
  by (relation "measure (\<lambda>n. n)") auto

subsection \<open>Tasks and server answers\<close>

text \<open>
  A task is \<^verbatim>\<open>{id, label, is_done}\<close> with a server-assigned numeric id. A property of a
  parsed JSON object is absent (\<^verbatim>\<open>undefined\<close>), \<^verbatim>\<open>null\<close>, or a value.
\<close>

record task =
  id' :: nat
  label :: string
  is_done :: bool

datatype 'a property = Undefined | Null | Value 'a

record userData =
  todos :: "task list property"

text \<open>
  The value \<^verbatim>\<open>response.json()\<close> resolves to. Only its \<^verbatim>\<open>todos\<close> property is ever read, so an
  object is represented by that property; a JSON number, string, boolean or array has no
  \<^verbatim>\<open>todos\<close> and behaves as an object without one. \<open>JNull\<close> is the JSON text \<^verbatim>\<open>null\<close>, on
  which a property access throws. A \<^verbatim>\<open>todos\<close> that is present is taken to be an array of
  tasks, as the service returns it.
\<close>

datatype json = JNull | JObject userData

text \<open>
  A response has a status; \<open>json = None\<close> means the body is not JSON, so that
  \<^verbatim>\<open>response.json()\<close> rejects. \<^verbatim>\<open>response.ok\<close> is true for a status from 200 to 299.
\<close>

record response =
  status :: nat
  json :: "json option"

definition ok :: "response \<Rightarrow> bool" where
  "ok r = (200 \<le> status r \<and> status r \<le> 299)"

datatype exn = TypeError | SyntaxError | Error string

subsection \<open>Requests and the network\<close>

datatype http_method = GET | POST | DELETE

text \<open>The object handed to \<^verbatim>\<open>JSON.stringify\<close> for a new task: its label and its flag.\<close>

datatype payload = Stringify string bool

record request =
  method' :: http_method
  url' :: string
  headers :: "(string \<times> string) list"
  body :: "payload option"

text \<open>
  The promise of a \<^verbatim>\<open>fetch\<close> rejects (the network failed) or resolves with a response,
  whatever its status. The network is any function from the requests issued so far and
  the request at hand to such an outcome; the log of issued requests is threaded through
  every operation.
\<close>

datatype outcome = Rejects | Resolves response

type_synonym network = "request list \<Rightarrow> request \<Rightarrow> outcome"

definition fetch :: "network \<Rightarrow> request \<Rightarrow> request list \<Rightarrow> outcome \<times> request list" where
  "fetch net r log = (net log r, log @ [r])"

definition API_BASE_URL :: string where
  "API_BASE_URL = ''https://playground.4geeks.com/todo''"

definition users_url :: "string \<Rightarrow> string" where
  "users_url username = API_BASE_URL @ ''/users/'' @ username"

definition todos_url :: "string \<Rightarrow> string" where
  "todos_url x = API_BASE_URL @ ''/todos/'' @ x"

definition get_user :: "string \<Rightarrow> request" where
  "get_user username = \<lparr>method' = GET, url' = users_url username, headers = [], body = None\<rparr>"

definition post_user :: "string \<Rightarrow> request" where
  "post_user username =
     \<lparr>method' = POST, url' = users_url username,
      headers = [(''Content-Type'', ''application/json'')], body = None\<rparr>"

definition post_todo :: "string \<Rightarrow> string \<Rightarrow> request" where
  "post_todo username taskText =
     \<lparr>method' = POST, url' = todos_url username,
      headers = [(''Content-Type'', ''application/json'')],
      body = Some (Stringify taskText False)\<rparr>"

definition delete_todo :: "nat \<Rightarrow> request" where
  "delete_todo taskId =
     \<lparr>method' = DELETE, url' = todos_url (String_nat taskId), headers = [], body = None\<rparr>"

text \<open>
  \<^verbatim>\<open>tasks.map(task => fetch(...))\<close> starts every request, in the order of the list, before
  any of them is awaited. \<^verbatim>\<open>Promise.all\<close> rejects as soon as one of the promises
  rejects and resolves with all the responses otherwise; it never looks at a status.
\<close>

fun fetch_each :: "network \<Rightarrow> request list \<Rightarrow> request list \<Rightarrow> outcome list \<times> request list" where
  "fetch_each net [] log = ([], log)"
| "fetch_each net (r # rs) log =
     (case fetch net r log of
        (out, log1) \<Rightarrow> (case fetch_each net rs log1 of (outs, log2) \<Rightarrow> (out # outs, log2)))"

fun Promise_all :: "outcome list \<Rightarrow> exn + response list" where
  "Promise_all [] = Inr []"
| "Promise_all (Rejects # outs) = Inl TypeError"
| "Promise_all (Resolves r # outs) =
     (case Promise_all outs of Inl e \<Rightarrow> Inl e | Inr rs \<Rightarrow> Inr (r # rs))"

subsection \<open>The operators \<^verbatim>\<open>||\<close> and \<^verbatim>\<open>?.\<close>\<close>

text \<open>
  \<^verbatim>\<open>userData.todos || []\<close>: an array, even an empty one, is truthy; \<^verbatim>\<open>undefined\<close> and
  \<^verbatim>\<open>null\<close> are not. \<^verbatim>\<open>userData.todos?.length\<close> is \<^verbatim>\<open>undefined\<close> when \<^verbatim>\<open>todos\<close> is
  \<^verbatim>\<open>undefined\<close> or \<^verbatim>\<open>null\<close>. \<^verbatim>\<open>n || 0\<close> is 0 when \<^verbatim>\<open>n\<close> is \<^verbatim>\<open>undefined\<close> or 0.
\<close>

definition or_array :: "'a list property \<Rightarrow> 'a list \<Rightarrow> 'a list" where
  "or_array p d = (case p of Undefined \<Rightarrow> d | Null \<Rightarrow> d | Value xs \<Rightarrow> xs)"

definition opt_length :: "'a list property \<Rightarrow> nat property" where
  "opt_length p = (case p of Undefined \<Rightarrow> Undefined | Null \<Rightarrow> Undefined | Value xs \<Rightarrow> Value (length xs))"

definition or_number :: "nat property \<Rightarrow> nat \<Rightarrow> nat" where
  "or_number p d = (case p of Undefined \<Rightarrow> d | Null \<Rightarrow> d | Value n \<Rightarrow> if n = 0 then d else n)"

datatype view = Gate | TaskView

text \<open>
  \<^verbatim>\<open>sessionStorage\<close> maps keys to strings; \<^verbatim>\<open>getItem\<close> of a key that is not stored is
  \<^verbatim>\<open>null\<close>.
\<close>

type_synonym storage = "string \<rightharpoonup> string"

section \<open>Second version: service, components and session storage (lines 271-640)\<close>

subsection \<open>\<^verbatim>\<open>todoAPI\<close> (lines 276-338)\<close>

text \<open>A function of the service changes no component state: it returns or throws.\<close>

definition todoAPI_initializeUser ::
  "network \<Rightarrow> string \<Rightarrow> request list \<Rightarrow> (exn + unit) \<times> request list" where
  "todoAPI_initializeUser net username log =
     (case fetch net (get_user username) log of
        (Rejects, log1) \<Rightarrow> (Inl TypeError, log1)
      | (Resolves response, log1) \<Rightarrow>
          if status response = 404 then
            (case fetch net (post_user username) log1 of
               (Rejects, log2) \<Rightarrow> (Inl TypeError, log2)
             | (Resolves created, log2) \<Rightarrow> (Inr (), log2))
          else (Inr (), log1))"

definition todoAPI_getUserTasks ::
  "network \<Rightarrow> string \<Rightarrow> request list \<Rightarrow> (exn + json) \<times> request list" where
  "todoAPI_getUserTasks net username log =
     (case fetch net (get_user username) log of
        (Rejects, log1) \<Rightarrow> (Inl TypeError, log1)
      | (Resolves response, log1) \<Rightarrow>
          if \<not> ok response then (Inl (Error ''Failed to fetch tasks''), log1)
          else (case json response of
                  None \<Rightarrow> (Inl SyntaxError, log1)
                | Some v \<Rightarrow> (Inr v, log1)))"

definition todoAPI_addTask ::
  "network \<Rightarrow> string \<Rightarrow> string \<Rightarrow> request list \<Rightarrow> (exn + json) \<times> request list" where
  "todoAPI_addTask net username taskText log =
     (case fetch net (post_todo username taskText) log of
        (Rejects, log1) \<Rightarrow> (Inl TypeError, log1)
      | (Resolves response, log1) \<Rightarrow>
          if \<not> ok response then (Inl (Error ''Failed to add task''), log1)
          else (case json response of
                  None \<Rightarrow> (Inl SyntaxError, log1)
                | Some v \<Rightarrow> (Inr v, log1)))"

definition todoAPI_deleteTask ::
  "network \<Rightarrow> nat \<Rightarrow> request list \<Rightarrow> (exn + unit) \<times> request list" where
  "todoAPI_deleteTask net taskId log =
     (case fetch net (delete_todo taskId) log of
        (Rejects, log1) \<Rightarrow> (Inl TypeError, log1)
      | (Resolves response, log1) \<Rightarrow>
          if \<not> ok response then (Inl (Error ''Failed to delete task''), log1)
          else (Inr (), log1))"

definition todoAPI_clearAllTasks ::
  "network \<Rightarrow> task list \<Rightarrow> request list \<Rightarrow> (exn + unit) \<times> request list" where
  "todoAPI_clearAllTasks net tasks log =
     (case fetch_each net (map (\<lambda>task. delete_todo (id' task)) tasks) log of
        (deletePromises, log1) \<Rightarrow>
          (case Promise_all deletePromises of
             Inl e \<Rightarrow> (Inl e, log1)
           | Inr responses \<Rightarrow> (Inr (), log1)))"

subsection \<open>\<^verbatim>\<open>TodoApp\<close> (lines 490-600)\<close>

text \<open>The four state variables of lines 491-494; \<open>username\<close> is a prop.\<close>

record todoApp =
  tasks :: "task list"
  totalTasksCreated :: nat
  loading :: bool
  error :: string

definition TodoApp_loadTasks ::
  "network \<Rightarrow> string \<Rightarrow> todoApp \<Rightarrow> request list \<Rightarrow> todoApp \<times> request list" where
  "TodoApp_loadTasks net username s log =
     (let s1 = s\<lparr>todoApp.error := ''''\<rparr>;
          caught = (\<lambda>log'. (s1\<lparr>todoApp.error := ''Failed to load tasks. Please try again.''\<rparr>, log'))
      in case todoAPI_getUserTasks net username log of
           (Inl e, log1) \<Rightarrow> caught log1
         | (Inr JNull, log1) \<Rightarrow> caught log1
         | (Inr (JObject userData), log1) \<Rightarrow>
             (s1\<lparr>todoApp.tasks := or_array (todos userData) [],
                 todoApp.totalTasksCreated := or_number (opt_length (todos userData)) 0\<rparr>,
              log1))"

definition TodoApp_finally :: "todoApp \<times> request list \<Rightarrow> todoApp \<times> request list" where
  "TodoApp_finally r = (case r of (s, log) \<Rightarrow> (s\<lparr>todoApp.loading := False\<rparr>, log))"

definition TodoApp_initializeUser ::
  "network \<Rightarrow> string \<Rightarrow> todoApp \<Rightarrow> request list \<Rightarrow> todoApp \<times> request list" where
  "TodoApp_initializeUser net username s log =
     (let s1 = s\<lparr>todoApp.loading := True, todoApp.error := ''''\<rparr>
      in TodoApp_finally
           (case todoAPI_initializeUser net username log of
              (Inl e, log1) \<Rightarrow>
                (s1\<lparr>todoApp.error := ''Failed to initialize user. Please try again.''\<rparr>, log1)
            | (Inr u, log1) \<Rightarrow> TodoApp_loadTasks net username s1 log1))"

definition handleAddTask ::
  "network \<Rightarrow> string \<Rightarrow> string \<Rightarrow> todoApp \<Rightarrow> request list \<Rightarrow> todoApp \<times> request list" where
  "handleAddTask net username taskText s log =
     (let s1 = s\<lparr>todoApp.loading := True, todoApp.error := ''''\<rparr>
      in TodoApp_finally
           (case todoAPI_addTask net username taskText log of
              (Inl e, log1) \<Rightarrow>
                (s1\<lparr>todoApp.error := ''Failed to add task. Please try again.''\<rparr>, log1)
            | (Inr created, log1) \<Rightarrow> TodoApp_loadTasks net username s1 log1))"

definition handleDeleteTask ::
  "network \<Rightarrow> string \<Rightarrow> nat \<Rightarrow> todoApp \<Rightarrow> request list \<Rightarrow> todoApp \<times> request list" where
  "handleDeleteTask net username taskId s log =
     (let s1 = s\<lparr>todoApp.loading := True, todoApp.error := ''''\<rparr>
      in TodoApp_finally
           (case todoAPI_deleteTask net taskId log of
              (Inl e, log1) \<Rightarrow>
                (s1\<lparr>todoApp.error := ''Failed to delete task. Please try again.''\<rparr>, log1)
            | (Inr u, log1) \<Rightarrow> TodoApp_loadTasks net username s1 log1))"

definition handleClearAll ::
  "network \<Rightarrow> string \<Rightarrow> todoApp \<Rightarrow> request list \<Rightarrow> todoApp \<times> request list" where
  "handleClearAll net username s log =
     (let s1 = s\<lparr>todoApp.loading := True, todoApp.error := ''''\<rparr>
      in TodoApp_finally
           (case todoAPI_clearAllTasks net (todoApp.tasks s) log of
              (Inl e, log1) \<Rightarrow>
                (s1\<lparr>todoApp.error := ''Failed to clear all tasks. Please try again.''\<rparr>, log1)
            | (Inr u, log1) \<Rightarrow> TodoApp_loadTasks net username s1 log1))"

subsection \<open>The small components (lines 362-487)\<close>

text \<open>
  A component receives its callbacks as props, so its handler is a function of them.
  \<open>'w\<close> is whatever the callback acts on. \<^verbatim>\<open>TaskInput\<close> owns \<open>inputValue\<close>
  (lines 363-369); \<^verbatim>\<open>ClearAllButton\<close> renders nothing without tasks, and its handler asks
  \<^verbatim>\<open>window.confirm\<close>, whose answer is the argument \<open>confirm\<close> (lines 399-419);
  \<^verbatim>\<open>UsernameForm\<close> hands the trimmed input to \<open>onSubmit\<close> (lines 459-464).
\<close>

definition TaskInput_handleSubmit :: "(string \<Rightarrow> 'w \<Rightarrow> 'w) \<Rightarrow> string \<Rightarrow> 'w \<Rightarrow> string \<times> 'w" where
  "TaskInput_handleSubmit onAddTask inputValue w =
     (if trim inputValue = '''' then (inputValue, w)
      else ('''', onAddTask (trim inputValue) w))"

definition ClearAllButton_handleClearAll :: "('w \<Rightarrow> 'w) \<Rightarrow> bool \<Rightarrow> 'w \<Rightarrow> 'w" where
  "ClearAllButton_handleClearAll onClearAll confirm w = (if confirm then onClearAll w else w)"

definition ClearAllButton_click :: "('w \<Rightarrow> 'w) \<Rightarrow> bool \<Rightarrow> bool \<Rightarrow> bool \<Rightarrow> 'w \<Rightarrow> 'w" where
  "ClearAllButton_click onClearAll hasTasks disabled confirm w =
     (if \<not> hasTasks then w
      else if disabled then w
      else ClearAllButton_handleClearAll onClearAll confirm w)"

definition UsernameForm_handleSubmit :: "(string \<Rightarrow> 'w \<Rightarrow> 'w) \<Rightarrow> string \<Rightarrow> 'w \<Rightarrow> 'w" where
  "UsernameForm_handleSubmit onSubmit inputUsername w =
     (if trim inputUsername \<noteq> '''' then onSubmit (trim inputUsername) w else w)"

text \<open>The props \<^verbatim>\<open>TodoApp\<close> passes at lines 587-592.\<close>

definition TodoApp_TaskInput ::
  "network \<Rightarrow> string \<Rightarrow> string \<Rightarrow> todoApp \<times> request list \<Rightarrow> string \<times> todoApp \<times> request list" where
  "TodoApp_TaskInput net username inputValue w =
     TaskInput_handleSubmit
       (\<lambda>taskText (s, log). handleAddTask net username taskText s log) inputValue w"

definition TodoApp_ClearAllButton ::
  "network \<Rightarrow> string \<Rightarrow> bool \<Rightarrow> todoApp \<times> request list \<Rightarrow> todoApp \<times> request list" where
  "TodoApp_ClearAllButton net username confirm w =
     ClearAllButton_click
       (\<lambda>(s, log). handleClearAll net username s log)
       (length (todoApp.tasks (fst w)) > 0) (todoApp.loading (fst w)) confirm w"

definition TodoApp_currentCount :: "todoApp \<Rightarrow> nat" where
  "TodoApp_currentCount s = length (todoApp.tasks s)"

subsection \<open>The root \<^verbatim>\<open>Home\<close> (lines 603-638)\<close>

record home2 =
  username :: string
  isUserSet :: bool

definition Home_mount :: "home2 \<times> storage \<Rightarrow> home2 \<times> storage" where
  "Home_mount p =
     (case p of (h, sessionStorage) \<Rightarrow>
        (case sessionStorage ''todoUsername'' of
           None \<Rightarrow> (h, sessionStorage)
         | Some savedUsername \<Rightarrow>
             if savedUsername \<noteq> ''''
             then (h\<lparr>home2.username := savedUsername, home2.isUserSet := True\<rparr>, sessionStorage)
             else (h, sessionStorage)))"

definition Home_handleUsernameSubmit :: "string \<Rightarrow> home2 \<times> storage \<Rightarrow> home2 \<times> storage" where
  "Home_handleUsernameSubmit newUsername p =
     (case p of (h, sessionStorage) \<Rightarrow>
        (h\<lparr>home2.username := newUsername, home2.isUserSet := True\<rparr>,
         sessionStorage(''todoUsername'' \<mapsto> newUsername)))"

definition Home_handleLogout :: "home2 \<times> storage \<Rightarrow> home2 \<times> storage" where
  "Home_handleLogout p =
     (case p of (h, sessionStorage) \<Rightarrow>
        (h\<lparr>home2.username := '''', home2.isUserSet := False\<rparr>,
         sessionStorage(''todoUsername'' := None)))"

definition Home_render :: "home2 \<Rightarrow> view" where
  "Home_render h = (if \<not> home2.isUserSet h then Gate else TaskView)"

text \<open>Line 631: the form's \<open>onSubmit\<close> is \<open>Home_handleUsernameSubmit\<close>.\<close>

definition Home_UsernameForm :: "string \<Rightarrow> home2 \<times> storage \<Rightarrow> home2 \<times> storage" where
  "Home_UsernameForm inputUsername p =
     UsernameForm_handleSubmit Home_handleUsernameSubmit inputUsername p"

section \<open>First version: the single component (lines 1-270)\<close>

text \<open>The seven state variables of lines 4-12.\<close>

record home =
  tasks :: "task list"
  inputTaskValue :: string
  totalTasksCreated :: nat
  loading :: bool
  error :: string
  username :: string
  isUserSet :: bool

text \<open>
  \<^verbatim>\<open>loadTasks\<close> (lines 49-65). Every throw inside the \<^verbatim>\<open>try\<close> block ends in the
  \<^verbatim>\<open>catch\<close>: a rejected fetch, the explicit throw on a response that is not ok, a body
  that is not JSON, and the property access on \<^verbatim>\<open>null\<close>.
\<close>

definition loadTasks :: "network \<Rightarrow> home \<Rightarrow> request list \<Rightarrow> home \<times> request list" where
  "loadTasks net s log =
     (let s1 = s\<lparr>home.error := ''''\<rparr>;
          caught = (\<lambda>log'. (s1\<lparr>home.error := ''Failed to load tasks. Please try again.''\<rparr>, log'))
      in case fetch net (get_user (home.username s)) log of
           (Rejects, log1) \<Rightarrow> caught log1
         | (Resolves response, log1) \<Rightarrow>
             if \<not> ok response then caught log1
             else (case json response of
                     None \<Rightarrow> caught log1
                   | Some JNull \<Rightarrow> caught log1
                   | Some (JObject userData) \<Rightarrow>
                       (s1\<lparr>home.tasks := or_array (todos userData) [],
                           home.totalTasksCreated := or_number (opt_length (todos userData)) 0\<rparr>,
                        log1)))"

text \<open>\<^verbatim>\<open>finally { setLoading(false) }\<close>, shared by the four asynchronous handlers.\<close>

definition finally_loading :: "home \<times> request list \<Rightarrow> home \<times> request list" where
  "finally_loading r = (case r of (s, log) \<Rightarrow> (s\<lparr>home.loading := False\<rparr>, log))"

text \<open>\<^verbatim>\<open>initializeUser\<close> (lines 21-47). The answer to the POST is awaited and not inspected.\<close>

definition initializeUser :: "network \<Rightarrow> home \<Rightarrow> request list \<Rightarrow> home \<times> request list" where
  "initializeUser net s log =
     (let s1 = s\<lparr>home.loading := True, home.error := ''''\<rparr>;
          caught = (\<lambda>log'. (s1\<lparr>home.error := ''Failed to initialize user. Please try again.''\<rparr>, log'))
      in finally_loading
           (case fetch net (get_user (home.username s)) log of
              (Rejects, log1) \<Rightarrow> caught log1
            | (Resolves response, log1) \<Rightarrow>
                if status response = 404 then
                  (case fetch net (post_user (home.username s)) log1 of
                     (Rejects, log2) \<Rightarrow> caught log2
                   | (Resolves created, log2) \<Rightarrow> loadTasks net s1 log2)
                else loadTasks net s1 log1))"

text \<open>\<^verbatim>\<open>handleUsernameSubmit\<close> (lines 67-72): a non-empty string is truthy.\<close>

definition handleUsernameSubmit :: "home \<Rightarrow> home" where
  "handleUsernameSubmit s =
     (if trim (home.username s) \<noteq> '''' then s\<lparr>home.isUserSet := True\<rparr> else s)"

text \<open>\<^verbatim>\<open>addTask\<close> (lines 78-109).\<close>

definition addTask :: "network \<Rightarrow> home \<Rightarrow> request list \<Rightarrow> home \<times> request list" where
  "addTask net s log =
     (if trim (inputTaskValue s) = '''' then (s, log)
      else
        (let s1 = s\<lparr>home.loading := True, home.error := ''''\<rparr>;
             caught = (\<lambda>log'. (s1\<lparr>home.error := ''Failed to add task. Please try again.''\<rparr>, log'))
         in finally_loading
              (case fetch net (post_todo (home.username s) (trim (inputTaskValue s))) log of
                 (Rejects, log1) \<Rightarrow> caught log1
               | (Resolves response, log1) \<Rightarrow>
                   if \<not> ok response then caught log1
                   else loadTasks net (s1\<lparr>inputTaskValue := ''''\<rparr>) log1)))"

text \<open>\<^verbatim>\<open>deleteTask\<close> (lines 117-138).\<close>

definition deleteTask :: "network \<Rightarrow> nat \<Rightarrow> home \<Rightarrow> request list \<Rightarrow> home \<times> request list" where
  "deleteTask net taskId s log =
     (let s1 = s\<lparr>home.loading := True, home.error := ''''\<rparr>;
          caught = (\<lambda>log'. (s1\<lparr>home.error := ''Failed to delete task. Please try again.''\<rparr>, log'))
      in finally_loading
           (case fetch net (delete_todo taskId) log of
              (Rejects, log1) \<Rightarrow> caught log1
            | (Resolves response, log1) \<Rightarrow>
                if \<not> ok response then caught log1
                else loadTasks net s1 log1))"

text \<open>\<^verbatim>\<open>clearAllTasks\<close> (lines 140-162): no response of a DELETE is inspected.\<close>

definition clearAllTasks :: "network \<Rightarrow> home \<Rightarrow> request list \<Rightarrow> home \<times> request list" where
  "clearAllTasks net s log =
     (let s1 = s\<lparr>home.loading := True, home.error := ''''\<rparr>;
          caught = (\<lambda>log'. (s1\<lparr>home.error := ''Failed to clear all tasks. Please try again.''\<rparr>, log'))
      in finally_loading
           (case fetch_each net (map (\<lambda>task. delete_todo (id' task)) (home.tasks s)) log of
              (deletePromises, log1) \<Rightarrow>
                (case Promise_all deletePromises of
                   Inl e \<Rightarrow> caught log1
                 | Inr responses \<Rightarrow> loadTasks net s1 log1)))"

text \<open>
  The render (lines 164-268). The username form is shown until \<open>isUserSet\<close>; the counter
  box shows \<open>totalTasksCreated\<close> and \<^verbatim>\<open>tasks.length\<close>; the Clear All button exists only
  when there is a task and is disabled while loading. A click on a button that is not
  rendered or is disabled runs no handler.
\<close>

definition render_view :: "home \<Rightarrow> view" where
  "render_view s = (if \<not> home.isUserSet s then Gate else TaskView)"

definition currentTasks :: "home \<Rightarrow> nat" where
  "currentTasks s = length (home.tasks s)"

definition click_ClearAll :: "network \<Rightarrow> home \<Rightarrow> request list \<Rightarrow> home \<times> request list" where
  "click_ClearAll net s log =
     (if length (home.tasks s) > 0 then
        (if home.loading s then (s, log) else clearAllTasks net s log)
      else (s, log))"

text \<open>
  The first version never touches \<^verbatim>\<open>sessionStorage\<close>: the name does not occur in lines
  1-270. Submitting its form therefore leaves the tab's session storage as it was.
\<close>

definition submit_form :: "home \<times> storage \<Rightarrow> home \<times> storage" where
  "submit_form p = (case p of (s, sessionStorage) \<Rightarrow> (handleUsernameSubmit s, sessionStorage))"

section \<open>Example data\<close>

text \<open>The initial values of the state variables (the arguments of \<^verbatim>\<open>useState\<close>).\<close>

definition home_init :: home where
  "home_init =
     \<lparr>home.tasks = [], inputTaskValue = '''', home.totalTasksCreated = 0, home.loading = False,
      home.error = '''', home.username = '''', home.isUserSet = False\<rparr>"

definition todoApp_init :: todoApp where
  "todoApp_init =
     \<lparr>todoApp.tasks = [], todoApp.totalTasksCreated = 0, todoApp.loading = False,
      todoApp.error = ''''\<rparr>"

definition home2_init :: home2 where
  "home2_init = \<lparr>home2.username = '''', home2.isUserSet = False\<rparr>"

definition buy_milk :: task where
  "buy_milk = \<lparr>id' = 1, label = ''buy milk'', is_done = False\<rparr>"

definition walk_dog :: task where
  "walk_dog = \<lparr>id' = 2, label = ''walk dog'', is_done = False\<rparr>"

text \<open>
  Networks. \<open>answer\<close> is a response with a JSON object as body. \<open>net_ok xs\<close> answers every
  request with status 200 and the list \<open>xs\<close>. \<open>net_delete_500 xs\<close> answers every DELETE
  with status 500 and everything else as \<open>net_ok xs\<close>. \<open>net_offline\<close> rejects every
  request. \<open>net_down\<close> answers every request with status 503. For \<open>net_new_user xs\<close> the
  user does not exist yet: the first request of the session is answered 404, a POST is
  answered 201, and every later GET is answered with the list \<open>xs\<close>.
  \<open>net_create_rejects\<close> answers every GET with 404 and rejects every other request.
\<close>

definition answer :: "nat \<Rightarrow> task list property \<Rightarrow> outcome" where
  "answer st p = Resolves \<lparr>status = st, json = Some (JObject \<lparr>todos = p\<rparr>)\<rparr>"

definition net_ok :: "task list \<Rightarrow> network" where
  "net_ok xs log r = answer 200 (Value xs)"

definition net_delete_500 :: "task list \<Rightarrow> network" where
  "net_delete_500 xs log r =
     (if method' r = DELETE then Resolves \<lparr>status = 500, json = None\<rparr> else answer 200 (Value xs))"

definition net_offline :: network where
  "net_offline log r = Rejects"

definition net_down :: network where
  "net_down log r = Resolves \<lparr>status = 503, json = None\<rparr>"

definition net_new_user :: "task list \<Rightarrow> network" where
  "net_new_user xs log r =
     (if method' r = POST then answer 201 Undefined
      else if log = [] then Resolves \<lparr>status = 404, json = None\<rparr>
      else answer 200 (Value xs))"

definition net_create_rejects :: network where
  "net_create_rejects log r =
     (if method' r = GET then Resolves \<lparr>status = 404, json = None\<rparr> else Rejects)"

section \<open>Outcomes of a request\<close>

text \<open>
  What the statements below say about an outcome: the answer had status 404; the promise
  resolved with an ok response; it resolved with an ok response whose body is JSON; it
  resolved with an ok response whose body is an object with the array \<open>xs\<close> as \<^verbatim>\<open>todos\<close>.
  \<open>all_resolve\<close>: none of the requests \<open>rs\<close>, issued in this order after \<open>log\<close>, rejects.
\<close>

definition got_404 :: "outcome \<Rightarrow> bool" where
  "got_404 out = (case out of Rejects \<Rightarrow> False | Resolves r \<Rightarrow> status r = 404)"

definition resolved_ok :: "outcome \<Rightarrow> bool" where
  "resolved_ok out = (case out of Rejects \<Rightarrow> False | Resolves r \<Rightarrow> ok r)"

definition resolved_ok_json :: "outcome \<Rightarrow> bool" where
  "resolved_ok_json out = (case out of Rejects \<Rightarrow> False | Resolves r \<Rightarrow> ok r \<and> json r \<noteq> None)"

definition returned_list :: "outcome \<Rightarrow> task list \<Rightarrow> bool" where
  "returned_list out xs =
     (case out of
        Rejects \<Rightarrow> False
      | Resolves r \<Rightarrow> ok r \<and> json r = Some (JObject \<lparr>todos = Value xs\<rparr>))"

definition all_resolve :: "network \<Rightarrow> request list \<Rightarrow> request list \<Rightarrow> bool" where
  "all_resolve net rs log = (Rejects \<notin> set (fst (fetch_each net rs log)))"

definition delete_requests :: "task list \<Rightarrow> request list" where
  "delete_requests ts = map (\<lambda>task. delete_todo (id' task)) ts"

section \<open>Basic facts\<close>

declare String_nat.simps [simp del]

lemma request_methods [simp]:
  "method' (get_user u) = GET" "method' (post_user u) = POST"
  "method' (post_todo u x) = POST" "method' (delete_todo n) = DELETE"
  by (simp_all add: get_user_def post_user_def post_todo_def delete_todo_def)

lemma fetch_each_Cons:
  "fetch_each net (r # rs) log =
     (net log r # fst (fetch_each net rs (log @ [r])), snd (fetch_each net rs (log @ [r])))"
  by (simp add: fetch_def split: prod.splits)

lemma fetch_each_log: "snd (fetch_each net rs log) = log @ rs"
  by (induction rs arbitrary: log) (simp_all add: fetch_each_Cons del: fetch_each.simps(2))

lemma fetch_each_outcomes:
  "fst (fetch_each net rs log) = map (\<lambda>i. net (log @ take i rs) (rs ! i)) [0..<length rs]"
proof (induction rs arbitrary: log)
  case Nil
  then show ?case by simp
next
  case (Cons r rs)
  have "map (\<lambda>i. net (log @ take i (r # rs)) ((r # rs) ! i)) [0..<length (r # rs)]
      = net log r # map (\<lambda>i. net ((log @ [r]) @ take i rs) (rs ! i)) [0..<length rs]"
    by (simp add: upt_conv_Cons map_Suc_upt [symmetric] del: upt_Suc)
  then show ?case using Cons [of "log @ [r]"]
    by (simp add: fetch_each_Cons del: fetch_each.simps upt_Suc)
qed

lemma Promise_all_rejects: "(\<exists>e. Promise_all outs = Inl e) = (Rejects \<in> set outs)"
proof (induction outs)
  case Nil
  then show ?case by simp
next
  case (Cons out outs)
  then show ?case by (cases out) (auto split: sum.splits)
qed

lemma loadTasks_ok:
  assumes "net log (get_user (home.username s)) = Resolves r" "ok r" "json r = Some (JObject d)"
  shows "loadTasks net s log =
    (s\<lparr>home.error := '''',
       home.tasks := (case todos d of Undefined \<Rightarrow> [] | Null \<Rightarrow> [] | Value xs \<Rightarrow> xs),
       home.totalTasksCreated := (case todos d of Undefined \<Rightarrow> 0 | Null \<Rightarrow> 0 | Value xs \<Rightarrow> length xs)\<rparr>,
     log @ [get_user (home.username s)])"
  using assms
  by (simp add: loadTasks_def fetch_def or_array_def or_number_def opt_length_def split: property.splits)

lemma TodoApp_loadTasks_ok:
  assumes "net log (get_user u) = Resolves r" "ok r" "json r = Some (JObject d)"
  shows "TodoApp_loadTasks net u t log =
    (t\<lparr>todoApp.error := '''',
       todoApp.tasks := (case todos d of Undefined \<Rightarrow> [] | Null \<Rightarrow> [] | Value xs \<Rightarrow> xs),
       todoApp.totalTasksCreated := (case todos d of Undefined \<Rightarrow> 0 | Null \<Rightarrow> 0 | Value xs \<Rightarrow> length xs)\<rparr>,
     log @ [get_user u])"
  using assms
  by (simp add: TodoApp_loadTasks_def todoAPI_getUserTasks_def fetch_def or_array_def or_number_def opt_length_def split: property.splits)

lemma loadTasks_failed:
  assumes "net log (get_user (home.username s)) = Rejects \<or>
           (\<exists>r. net log (get_user (home.username s)) = Resolves r \<and> \<not> ok r)"
  shows "loadTasks net s log =
    (s\<lparr>home.error := ''Failed to load tasks. Please try again.''\<rparr>, log @ [get_user (home.username s)])"
  using assms
  by (auto simp add: loadTasks_def fetch_def)

lemma TodoApp_loadTasks_failed:
  assumes "net log (get_user u) = Rejects \<or>
           (\<exists>r. net log (get_user u) = Resolves r \<and> \<not> ok r)"
  shows "TodoApp_loadTasks net u t log =
    (t\<lparr>todoApp.error := ''Failed to load tasks. Please try again.''\<rparr>, log @ [get_user u])"
  using assms
  by (auto simp add: TodoApp_loadTasks_def todoAPI_getUserTasks_def fetch_def)

lemma loadTasks_log: "snd (loadTasks net s log) = log @ [get_user (home.username s)]"
  by (simp add: loadTasks_def fetch_def Let_def split: outcome.splits option.splits json.splits)

lemma TodoApp_loadTasks_log: "snd (TodoApp_loadTasks net u t log) = log @ [get_user u]"
  by (simp add: TodoApp_loadTasks_def todoAPI_getUserTasks_def fetch_def Let_def split: outcome.splits option.splits json.splits)

lemma ok_200 [simp]: "ok \<lparr>status = 200, json = j\<rparr>"
  by (simp add: ok_def)

section \<open>Loading the task list\<close>

text \<open>
  Claim C5. Whenever the GET of \<^verbatim>\<open>loadTasks\<close> resolves with an ok response whose body is a
  JSON object, the displayed task list becomes that object's \<^verbatim>\<open>todos\<close> array, or the empty
  list when \<^verbatim>\<open>todos\<close> is absent or \<^verbatim>\<open>null\<close>; the counter "Total Tasks Created" and the
  counter "Current Tasks" both become the length of that list, and the error message is
  empty. This holds for \<open>loadTasks\<close> of the first version and for \<open>TodoApp_loadTasks\<close> of
  the second.
\<close>

theorem loadTasks_shows_fetched_todos:
  assumes "net log (get_user u) = Resolves r" and "ok r" and "json r = Some (JObject d)"
    and "home.username s = u"
  shows "(let (s', log') = loadTasks net s log in
            home.tasks s' = (case todos d of Undefined \<Rightarrow> [] | Null \<Rightarrow> [] | Value xs \<Rightarrow> xs) \<and>
            home.totalTasksCreated s' = length (home.tasks s') \<and>
            currentTasks s' = length (home.tasks s') \<and>
            home.error s' = '''' \<and> log' = log @ [get_user u]) \<and>
         (let (t', log') = TodoApp_loadTasks net u t log in
            todoApp.tasks t' = (case todos d of Undefined \<Rightarrow> [] | Null \<Rightarrow> [] | Value xs \<Rightarrow> xs) \<and>
            todoApp.totalTasksCreated t' = length (todoApp.tasks t') \<and>
            TodoApp_currentCount t' = length (todoApp.tasks t') \<and>
            todoApp.error t' = '''' \<and> log' = log @ [get_user u])"
proof -
  have a: "net log (get_user (home.username s)) = Resolves r"
    using assms by simp
  note b = loadTasks_ok [of net log s r d, OF a assms(2,3)]
  note c = TodoApp_loadTasks_ok [of net log u r d t, OF assms(1,2,3)]
  show ?thesis
    unfolding b c using assms(4)
    by (simp add: currentTasks_def TodoApp_currentCount_def split: property.splits)
qed

theorem loadTasks_shows_fetched_todos_witness:
  "(let (s', log') = loadTasks (net_ok [buy_milk, walk_dog]) (home_init\<lparr>home.username := ''bob''\<rparr>) [] in
      home.tasks s' = [buy_milk, walk_dog] \<and> home.totalTasksCreated s' = 2 \<and> currentTasks s' = 2) \<and>
   (let (t', log') = TodoApp_loadTasks (\<lambda>log r. answer 200 Null) ''bob'' (todoApp_init\<lparr>todoApp.tasks := [buy_milk]\<rparr>) [] in
      todoApp.tasks t' = [] \<and> todoApp.totalTasksCreated t' = 0 \<and> TodoApp_currentCount t' = 0)"
  using loadTasks_shows_fetched_todos [of "net_ok [buy_milk, walk_dog]" "[]" "''bob''"
      "\<lparr>status = 200, json = Some (JObject \<lparr>todos = Value [buy_milk, walk_dog]\<rparr>)\<rparr>"
      "\<lparr>todos = Value [buy_milk, walk_dog]\<rparr>" "home_init\<lparr>home.username := ''bob''\<rparr>" todoApp_init]
    loadTasks_shows_fetched_todos [of "\<lambda>log r. answer 200 Null" "[]" "''bob''"
      "\<lparr>status = 200, json = Some (JObject \<lparr>todos = Null\<rparr>)\<rparr>"
      "\<lparr>todos = Null\<rparr>" "home_init\<lparr>home.username := ''bob''\<rparr>" "todoApp_init\<lparr>todoApp.tasks := [buy_milk]\<rparr>"]
  by (simp add: net_ok_def answer_def split: prod.splits)

text \<open>
  Claim C9. After a successful \<^verbatim>\<open>loadTasks\<close> the counter "Total Tasks Created" equals the
  length of the fetched \<^verbatim>\<open>todos\<close> array, which is also the length of the displayed list. It
  does not accumulate: when the fetched array is shorter than the counter was, the counter
  goes down.
\<close>

theorem total_counter_is_fetched_length:
  assumes "net log (get_user u) = Resolves r" and "ok r" and "json r = Some (JObject d)"
    and "home.username s = u"
  shows "(let s' = fst (loadTasks net s log);
              n = length (case todos d of Undefined \<Rightarrow> [] | Null \<Rightarrow> [] | Value xs \<Rightarrow> xs) in
            home.totalTasksCreated s' = n \<and> n = length (home.tasks s') \<and>
            (n < home.totalTasksCreated s \<longrightarrow> home.totalTasksCreated s' < home.totalTasksCreated s)) \<and>
         (let t' = fst (TodoApp_loadTasks net u t log);
              n = length (case todos d of Undefined \<Rightarrow> [] | Null \<Rightarrow> [] | Value xs \<Rightarrow> xs) in
            todoApp.totalTasksCreated t' = n \<and> n = length (todoApp.tasks t') \<and>
            (n < todoApp.totalTasksCreated t \<longrightarrow> todoApp.totalTasksCreated t' < todoApp.totalTasksCreated t))"
proof -
  have a: "net log (get_user (home.username s)) = Resolves r"
    using assms by simp
  note b = loadTasks_ok [of net log s r d, OF a assms(2,3)]
  note c = TodoApp_loadTasks_ok [of net log u r d t, OF assms(1,2,3)]
  show ?thesis
    unfolding b c by (simp add: Let_def split: property.splits)
qed

theorem total_counter_is_fetched_length_witness:
  "home.totalTasksCreated
     (fst (loadTasks (net_ok [walk_dog])
        (home_init\<lparr>home.username := ''bob'', home.tasks := [buy_milk, walk_dog],
           home.totalTasksCreated := 2\<rparr>) [])) = 1 \<and>
   todoApp.totalTasksCreated
     (fst (TodoApp_loadTasks (net_ok [walk_dog]) ''bob''
        (todoApp_init\<lparr>todoApp.tasks := [buy_milk, walk_dog], todoApp.totalTasksCreated := 2\<rparr>) [])) = 1"
  using total_counter_is_fetched_length [of "net_ok [walk_dog]" "[]" "''bob''"
      "\<lparr>status = 200, json = Some (JObject \<lparr>todos = Value [walk_dog]\<rparr>)\<rparr>"
      "\<lparr>todos = Value [walk_dog]\<rparr>"
      "home_init\<lparr>home.username := ''bob'', home.tasks := [buy_milk, walk_dog],
           home.totalTasksCreated := 2\<rparr>"
      "todoApp_init\<lparr>todoApp.tasks := [buy_milk, walk_dog], todoApp.totalTasksCreated := 2\<rparr>"]
  by (simp add: net_ok_def answer_def home_init_def Let_def)

text \<open>
  Claim C10. When the GET of \<^verbatim>\<open>loadTasks\<close> rejects or resolves with a response that is not
  ok, the state afterwards is the state before with only the error message replaced: the
  task list and both counters are as they were.
\<close>

theorem loadTasks_failure_changes_only_error:
  assumes "net log (get_user u) = Rejects \<or> (\<exists>r. net log (get_user u) = Resolves r \<and> \<not> ok r)"
    and "home.username s = u"
  shows "loadTasks net s log =
           (s\<lparr>home.error := ''Failed to load tasks. Please try again.''\<rparr>, log @ [get_user u]) \<and>
         home.tasks (fst (loadTasks net s log)) = home.tasks s \<and>
         home.totalTasksCreated (fst (loadTasks net s log)) = home.totalTasksCreated s \<and>
         currentTasks (fst (loadTasks net s log)) = currentTasks s \<and>
         TodoApp_loadTasks net u t log =
           (t\<lparr>todoApp.error := ''Failed to load tasks. Please try again.''\<rparr>, log @ [get_user u]) \<and>
         todoApp.tasks (fst (TodoApp_loadTasks net u t log)) = todoApp.tasks t \<and>
         todoApp.totalTasksCreated (fst (TodoApp_loadTasks net u t log)) = todoApp.totalTasksCreated t \<and>
         TodoApp_currentCount (fst (TodoApp_loadTasks net u t log)) = TodoApp_currentCount t"
proof -
  have a: "net log (get_user (home.username s)) = Rejects \<or>
           (\<exists>r. net log (get_user (home.username s)) = Resolves r \<and> \<not> ok r)"
    using assms by simp
  note b = loadTasks_failed [of net log s, OF a]
  note c = TodoApp_loadTasks_failed [of net log u t, OF assms(1)]
  show ?thesis
    unfolding b c using assms(2) by (simp add: currentTasks_def TodoApp_currentCount_def)
qed

theorem loadTasks_failure_changes_only_error_witness:
  "loadTasks net_offline (home_init\<lparr>home.username := ''bob'', home.tasks := [buy_milk], home.totalTasksCreated := 1\<rparr>) [] =
     (home_init\<lparr>home.username := ''bob'', home.tasks := [buy_milk], home.totalTasksCreated := 1,
        home.error := ''Failed to load tasks. Please try again.''\<rparr>, [get_user ''bob'']) \<and>
   TodoApp_loadTasks net_down ''bob'' (todoApp_init\<lparr>todoApp.tasks := [buy_milk], todoApp.totalTasksCreated := 1\<rparr>) [] =
     (todoApp_init\<lparr>todoApp.tasks := [buy_milk], todoApp.totalTasksCreated := 1,
        todoApp.error := ''Failed to load tasks. Please try again.''\<rparr>, [get_user ''bob''])"
  using loadTasks_failure_changes_only_error [of net_offline "[]" "''bob''"
      "home_init\<lparr>home.username := ''bob'', home.tasks := [buy_milk], home.totalTasksCreated := 1\<rparr>" todoApp_init]
    loadTasks_failure_changes_only_error [of net_down "[]" "''bob''"
      "home_init\<lparr>home.username := ''bob''\<rparr>"
      "todoApp_init\<lparr>todoApp.tasks := [buy_milk], todoApp.totalTasksCreated := 1\<rparr>"]
  by (simp add: net_offline_def net_down_def ok_def home_init_def todoApp_init_def)


text \<open>
  An ok response whose body is not JSON, or is the JSON text \<^verbatim>\<open>null\<close>, has no \<^verbatim>\<open>todos\<close> to
  show: \<^verbatim>\<open>loadTasks\<close> ends in its \<^verbatim>\<open>catch\<close>, as for a response that is not ok.
\<close>

lemma loadTasks_unreadable_body:
  assumes "net log (get_user u) = Resolves r" and "ok r"
    and "json r = None \<or> json r = Some JNull" and "home.username s = u"
  shows "loadTasks net s log =
           (s\<lparr>home.error := ''Failed to load tasks. Please try again.''\<rparr>, log @ [get_user u]) \<and>
         TodoApp_loadTasks net u t log =
           (t\<lparr>todoApp.error := ''Failed to load tasks. Please try again.''\<rparr>, log @ [get_user u])"
  using assms
  by (auto simp add: loadTasks_def TodoApp_loadTasks_def todoAPI_getUserTasks_def fetch_def)

section \<open>The guards of the user interface\<close>

lemma trim_blank: "\<forall>c \<in> set v. isWhiteSpace c \<Longrightarrow> trim v = []"
proof -
  assume "\<forall>c \<in> set v. isWhiteSpace c"
  then have d: "dropWhile isWhiteSpace v = []"
    by (simp add: dropWhile_eq_Nil_conv)
  show ?thesis
    unfolding trim_def d by simp
qed

lemma trim_empty_iff: "(trim v = []) = (\<forall>c \<in> set v. isWhiteSpace c)"
proof
  assume e: "trim v = []"
  have "dropWhile isWhiteSpace v = []"
  proof (rule ccontr)
    assume n: "dropWhile isWhiteSpace v \<noteq> []"
    then have "\<not> isWhiteSpace (hd (dropWhile isWhiteSpace v))"
      by (rule hd_dropWhile)
    moreover have "hd (dropWhile isWhiteSpace v) \<in> set (dropWhile isWhiteSpace v)"
      using n by simp
    moreover have "\<forall>x \<in> set (dropWhile isWhiteSpace v). isWhiteSpace x"
      using e by (simp add: trim_def dropWhile_eq_Nil_conv)
    ultimately show False by blast
  qed
  then show "\<forall>c \<in> set v. isWhiteSpace c"
    by (simp add: dropWhile_eq_Nil_conv)
next
  assume "\<forall>c \<in> set v. isWhiteSpace c"
  then show "trim v = []" by (rule trim_blank)
qed

text \<open>
  Claim C6. When the task input is empty or consists of white space only, adding a task
  does nothing: no request is issued and the whole state is as before (task list, both
  counters, input value, loading flag, error message). In the first version the guard is
  the first line of \<open>addTask\<close>; in the second it is the first line of
  \<open>TaskInput_handleSubmit\<close>, which then never calls \<open>onAddTask\<close>, whatever that callback is.
\<close>

theorem blank_input_adds_nothing:
  assumes "\<forall>c \<in> set v. isWhiteSpace c" and "inputTaskValue s = v"
  shows "addTask net s log = (s, log) \<and>
         TodoApp_TaskInput net u v (t, log) = (v, t, log) \<and>
         TaskInput_handleSubmit onAddTask v w = (v, w)"
  using assms trim_blank [of v]
  by (simp add: addTask_def TodoApp_TaskInput_def TaskInput_handleSubmit_def)

theorem blank_input_adds_nothing_witness:
  "addTask net_offline (home_init\<lparr>inputTaskValue := ''   ''\<rparr>) [] =
     (home_init\<lparr>inputTaskValue := ''   ''\<rparr>, []) \<and>
   TodoApp_TaskInput net_offline ''bob'' '''' (todoApp_init, []) = ('''', todoApp_init, [])"
  using blank_input_adds_nothing [where v = "''   ''" and s = "home_init\<lparr>inputTaskValue := ''   ''\<rparr>"
      and net = net_offline and log = "[]" and u = "''bob''" and t = todoApp_init
      and onAddTask = "\<lambda>x y. y" and w = "()"]
    blank_input_adds_nothing [where v = "[]" and s = home_init
      and net = net_offline and log = "[]" and u = "''bob''" and t = todoApp_init
      and onAddTask = "\<lambda>x y. y" and w = "()"]
  by (simp add: isWhiteSpace_def home_init_def)

lemma clearAllTasks_empty:
  "home.tasks s = [] \<Longrightarrow>
   clearAllTasks net s log =
     finally_loading (loadTasks net (s\<lparr>home.loading := True, home.error := ''''\<rparr>) log)"
  by (simp add: clearAllTasks_def)

lemma handleClearAll_empty:
  "todoApp.tasks t = [] \<Longrightarrow>
   handleClearAll net u t log =
     TodoApp_finally (TodoApp_loadTasks net u (t\<lparr>todoApp.loading := True, todoApp.error := ''''\<rparr>) log)"
  by (simp add: handleClearAll_def todoAPI_clearAllTasks_def)

lemma snd_finally_loading [simp]: "snd (finally_loading p) = snd p"
  by (simp add: finally_loading_def split: prod.splits)

lemma snd_TodoApp_finally [simp]: "snd (TodoApp_finally p) = snd p"
  by (simp add: TodoApp_finally_def split: prod.splits)

text \<open>
  Claim C7. With an empty task list, clearing all tasks does nothing. The Clear All button
  is rendered only when there is a task (lines 233 and 400), so on an empty list a click
  reaches no handler: no request is issued and the state is as before. The handler itself,
  were it run on an empty list, would still send no DELETE: the only request it issues is
  the GET of the reload.
\<close>

theorem clear_all_without_tasks_is_noop:
  assumes "home.tasks s = []" and "todoApp.tasks t = []"
  shows "click_ClearAll net s log = (s, log) \<and>
         TodoApp_ClearAllButton net u confirm (t, log) = (t, log) \<and>
         snd (clearAllTasks net s log) = log @ [get_user (home.username s)] \<and>
         snd (handleClearAll net u t log) = log @ [get_user u]"
  using assms
  by (simp add: click_ClearAll_def TodoApp_ClearAllButton_def ClearAllButton_click_def
      clearAllTasks_empty handleClearAll_empty loadTasks_log TodoApp_loadTasks_log)

theorem clear_all_without_tasks_is_noop_witness:
  "click_ClearAll (net_ok [buy_milk]) (home_init\<lparr>home.username := ''bob''\<rparr>) [] =
     (home_init\<lparr>home.username := ''bob''\<rparr>, []) \<and>
   TodoApp_ClearAllButton (net_ok [buy_milk]) ''bob'' True (todoApp_init, []) = (todoApp_init, [])"
  using clear_all_without_tasks_is_noop [of "home_init\<lparr>home.username := ''bob''\<rparr>" todoApp_init
      "net_ok [buy_milk]" "[]" "''bob''" True]
  by (simp add: home_init_def todoApp_init_def)

section \<open>The username gate and session storage\<close>

text \<open>
  Claim C8. Logout removes the key \<^verbatim>\<open>todoUsername\<close> from session storage and leaves every
  other key alone, sets the in-memory username to the empty string, and makes \<^verbatim>\<open>Home\<close>
  render the username form again. A later mount finds no stored username and stays at the
  gate.
\<close>

theorem logout_returns_to_gate:
  "(let (h', st') = Home_handleLogout (h, st) in
      st' = st(''todoUsername'' := None) \<and> st' ''todoUsername'' = None \<and>
      home2.username h' = '''' \<and> Home_render h' = Gate \<and>
      Home_mount (home2_init, st') = (home2_init, st'))"
  by (simp add: Home_handleLogout_def Home_render_def Home_mount_def)

text \<open>
  Claim C2, as amended. For every username that is not empty after trimming, submitting the
  username form moves the client from the gate to the task view. The second version stores
  the trimmed username, both in memory and in session storage under the key
  \<^verbatim>\<open>todoUsername\<close>, from where the next mount restores it. The first version keeps the
  username as typed, in memory only, and leaves session storage as it was.
\<close>

theorem username_submit_transitions:
  assumes "trim v \<noteq> ''''"
  shows "(let (s', st') = submit_form (s\<lparr>home.username := v\<rparr>, st) in
            render_view s' = TaskView \<and> home.username s' = v \<and> st' = st) \<and>
         (let (h', st') = Home_UsernameForm v (h, st) in
            Home_render h' = TaskView \<and> home2.username h' = trim v \<and>
            st' = st(''todoUsername'' \<mapsto> trim v) \<and>
            Home_mount (home2_init, st') = (\<lparr>home2.username = trim v, home2.isUserSet = True\<rparr>, st'))"
  using assms
  by (simp add: submit_form_def handleUsernameSubmit_def render_view_def Home_UsernameForm_def
      UsernameForm_handleSubmit_def Home_handleUsernameSubmit_def Home_render_def Home_mount_def
      home2_init_def)

lemma trim_bob: "trim '' bob'' = ''bob''"
  by (simp add: trim_def isWhiteSpace_def)

theorem username_submit_transitions_witness:
  "render_view (fst (submit_form (home_init\<lparr>home.username := '' bob''\<rparr>, Map.empty))) = TaskView \<and>
   Home_render (fst (Home_UsernameForm '' bob'' (home2_init, Map.empty))) = TaskView \<and>
   home2.username (fst (Home_UsernameForm '' bob'' (home2_init, Map.empty))) = ''bob'' \<and>
   snd (Home_UsernameForm '' bob'' (home2_init, Map.empty)) = [''todoUsername'' \<mapsto> ''bob'']"
  using username_submit_transitions [of "'' bob''" home_init Map.empty home2_init]
  by (simp add: trim_bob split: prod.splits)

text \<open>
  The claim as stated fails for the username \<^verbatim>\<open>" bob"\<close>, which is not empty after
  trimming: the first version stores nothing, and the second stores \<^verbatim>\<open>"bob"\<close>, not the
  username that was submitted.
\<close>

theorem username_submit_counterexample:
  "trim '' bob'' \<noteq> '''' \<and>
   snd (submit_form (home_init\<lparr>home.username := '' bob''\<rparr>, Map.empty)) ''todoUsername'' = None \<and>
   snd (Home_UsernameForm '' bob'' (home2_init, Map.empty)) ''todoUsername'' = Some ''bob'' \<and>
   snd (Home_UsernameForm '' bob'' (home2_init, Map.empty)) ''todoUsername'' \<noteq> Some '' bob''"
  by (simp add: trim_bob submit_form_def Home_UsernameForm_def UsernameForm_handleSubmit_def
      Home_handleUsernameSubmit_def)

section \<open>What a handler does once its own request has succeeded\<close>

lemma all_resolve_iff:
  "all_resolve net rs log = (\<forall>i < length rs. net (log @ take i rs) (rs ! i) \<noteq> Rejects)"
  by (force simp add: all_resolve_def fetch_each_outcomes)

lemma Promise_all_resolves: "Rejects \<notin> set outs \<Longrightarrow> \<exists>rs. Promise_all outs = Inr rs"
  using Promise_all_rejects [of outs] by (cases "Promise_all outs") auto

lemma loadTasks_returned_list:
  assumes "returned_list (net log (get_user (home.username s))) xs"
  shows "loadTasks net s log =
    (s\<lparr>home.error := '''', home.tasks := xs, home.totalTasksCreated := length xs\<rparr>,
     log @ [get_user (home.username s)])"
  using assms
  by (simp add: returned_list_def loadTasks_def fetch_def or_array_def or_number_def opt_length_def
      split: outcome.splits)

lemma TodoApp_loadTasks_returned_list:
  assumes "returned_list (net log (get_user u)) xs"
  shows "TodoApp_loadTasks net u t log =
    (t\<lparr>todoApp.error := '''', todoApp.tasks := xs, todoApp.totalTasksCreated := length xs\<rparr>,
     log @ [get_user u])"
proof -
  obtain r where r: "net log (get_user u) = Resolves r" "ok r"
      "json r = Some (JObject \<lparr>todos = Value xs\<rparr>)"
    using assms by (auto simp add: returned_list_def split: outcome.splits)
  show ?thesis
    using TodoApp_loadTasks_ok [of net log u r "\<lparr>todos = Value xs\<rparr>" t, OF r] by simp
qed

lemma addTask_reloads:
  assumes "trim (inputTaskValue s) \<noteq> ''''"
    and "resolved_ok (net log (post_todo (home.username s) (trim (inputTaskValue s))))"
  shows "addTask net s log =
    finally_loading (loadTasks net (s\<lparr>home.loading := True, home.error := '''', inputTaskValue := ''''\<rparr>)
      (log @ [post_todo (home.username s) (trim (inputTaskValue s))]))"
  using assms
  by (simp add: addTask_def resolved_ok_def fetch_def split: outcome.splits)

lemma deleteTask_reloads:
  assumes "resolved_ok (net log (delete_todo i))"
  shows "deleteTask net i s log =
    finally_loading (loadTasks net (s\<lparr>home.loading := True, home.error := ''''\<rparr>) (log @ [delete_todo i]))"
  using assms
  by (simp add: deleteTask_def resolved_ok_def fetch_def split: outcome.splits)

lemma clearAllTasks_reloads:
  assumes "all_resolve net (delete_requests (home.tasks s)) log"
  shows "clearAllTasks net s log =
    finally_loading (loadTasks net (s\<lparr>home.loading := True, home.error := ''''\<rparr>)
      (log @ delete_requests (home.tasks s)))"
proof -
  obtain outs where a: "fetch_each net (delete_requests (home.tasks s)) log =
      (outs, log @ delete_requests (home.tasks s))"
    using fetch_each_log [of net "delete_requests (home.tasks s)" log]
    by (cases "fetch_each net (delete_requests (home.tasks s)) log") simp
  then have "Rejects \<notin> set outs"
    using assms by (simp add: all_resolve_def)
  then obtain rs where "Promise_all outs = Inr rs"
    using Promise_all_resolves by blast
  then show ?thesis
    using a by (simp add: clearAllTasks_def delete_requests_def)
qed

lemma clearAllTasks_aborts:
  assumes "\<not> all_resolve net (delete_requests (home.tasks s)) log"
  shows "clearAllTasks net s log =
    (s\<lparr>home.loading := False, home.error := ''Failed to clear all tasks. Please try again.''\<rparr>,
     log @ delete_requests (home.tasks s))"
proof -
  obtain outs where a: "fetch_each net (delete_requests (home.tasks s)) log =
      (outs, log @ delete_requests (home.tasks s))"
    using fetch_each_log [of net "delete_requests (home.tasks s)" log]
    by (cases "fetch_each net (delete_requests (home.tasks s)) log") simp
  then have "Rejects \<in> set outs"
    using assms by (simp add: all_resolve_def)
  then obtain e where "Promise_all outs = Inl e"
    using Promise_all_rejects [of outs] by blast
  then show ?thesis
    using a by (simp add: clearAllTasks_def delete_requests_def finally_loading_def)
qed

lemma handleAddTask_reloads:
  assumes "resolved_ok_json (net log (post_todo u x))"
  shows "handleAddTask net u x t log =
    TodoApp_finally (TodoApp_loadTasks net u (t\<lparr>todoApp.loading := True, todoApp.error := ''''\<rparr>)
      (log @ [post_todo u x]))"
  using assms
  by (auto simp add: handleAddTask_def todoAPI_addTask_def resolved_ok_json_def fetch_def
      split: outcome.splits)

lemma handleDeleteTask_reloads:
  assumes "resolved_ok (net log (delete_todo i))"
  shows "handleDeleteTask net u i t log =
    TodoApp_finally (TodoApp_loadTasks net u (t\<lparr>todoApp.loading := True, todoApp.error := ''''\<rparr>)
      (log @ [delete_todo i]))"
  using assms
  by (simp add: handleDeleteTask_def todoAPI_deleteTask_def resolved_ok_def fetch_def
      split: outcome.splits)

lemma todoAPI_clearAllTasks_result:
  "todoAPI_clearAllTasks net ts log =
     (if all_resolve net (delete_requests ts) log then Inr () else Inl TypeError,
      log @ delete_requests ts)"
proof -
  obtain outs where a: "fetch_each net (delete_requests ts) log = (outs, log @ delete_requests ts)"
    using fetch_each_log [of net "delete_requests ts" log]
    by (cases "fetch_each net (delete_requests ts) log") simp
  have b: "Promise_all outs = Inl e \<Longrightarrow> e = TypeError" for e
    by (induction outs rule: Promise_all.induct) (auto split: sum.splits)
  show ?thesis
  proof (cases "Rejects \<in> set outs")
    case True
    then obtain e where "Promise_all outs = Inl e"
      using Promise_all_rejects [of outs] by blast
    then show ?thesis
      using a b True by (simp add: todoAPI_clearAllTasks_def delete_requests_def all_resolve_def)
  next
    case False
    then obtain rs where "Promise_all outs = Inr rs"
      using Promise_all_resolves by blast
    then show ?thesis
      using a False by (simp add: todoAPI_clearAllTasks_def delete_requests_def all_resolve_def)
  qed
qed

lemma handleClearAll_reloads:
  assumes "all_resolve net (delete_requests (todoApp.tasks t)) log"
  shows "handleClearAll net u t log =
    TodoApp_finally (TodoApp_loadTasks net u (t\<lparr>todoApp.loading := True, todoApp.error := ''''\<rparr>)
      (log @ delete_requests (todoApp.tasks t)))"
  using assms by (simp add: handleClearAll_def todoAPI_clearAllTasks_result)

lemma handleClearAll_aborts:
  assumes "\<not> all_resolve net (delete_requests (todoApp.tasks t)) log"
  shows "handleClearAll net u t log =
    (t\<lparr>todoApp.loading := False, todoApp.error := ''Failed to clear all tasks. Please try again.''\<rparr>,
     log @ delete_requests (todoApp.tasks t))"
  using assms by (simp add: handleClearAll_def todoAPI_clearAllTasks_result TodoApp_finally_def)

lemma fst_finally_loading [simp]: "fst (finally_loading p) = (fst p)\<lparr>home.loading := False\<rparr>"
  by (simp add: finally_loading_def split: prod.splits)

lemma fst_TodoApp_finally [simp]: "fst (TodoApp_finally p) = (fst p)\<lparr>todoApp.loading := False\<rparr>"
  by (simp add: TodoApp_finally_def split: prod.splits)

lemma addTask_refetch:
  assumes "trim (inputTaskValue s) \<noteq> ''''"
    and "resolved_ok (net log (post_todo (home.username s) (trim (inputTaskValue s))))"
    and "returned_list (net (log @ [post_todo (home.username s) (trim (inputTaskValue s))])
           (get_user (home.username s))) xs"
  shows "addTask net s log =
    (s\<lparr>home.loading := False, home.error := '''', inputTaskValue := '''', home.tasks := xs,
        home.totalTasksCreated := length xs\<rparr>,
     log @ [post_todo (home.username s) (trim (inputTaskValue s)), get_user (home.username s)])"
  using assms
  by (simp add: addTask_reloads loadTasks_returned_list finally_loading_def)

lemma deleteTask_refetch:
  assumes "resolved_ok (net log (delete_todo i))"
    and "returned_list (net (log @ [delete_todo i]) (get_user (home.username s))) xs"
  shows "deleteTask net i s log =
    (s\<lparr>home.loading := False, home.error := '''', home.tasks := xs,
        home.totalTasksCreated := length xs\<rparr>,
     log @ [delete_todo i, get_user (home.username s)])"
  using assms
  by (simp add: deleteTask_reloads loadTasks_returned_list finally_loading_def)

lemma clearAllTasks_refetch:
  assumes "all_resolve net (delete_requests (home.tasks s)) log"
    and "returned_list (net (log @ delete_requests (home.tasks s)) (get_user (home.username s))) xs"
  shows "clearAllTasks net s log =
    (s\<lparr>home.loading := False, home.error := '''', home.tasks := xs,
        home.totalTasksCreated := length xs\<rparr>,
     log @ delete_requests (home.tasks s) @ [get_user (home.username s)])"
  using assms
  by (simp add: clearAllTasks_reloads loadTasks_returned_list finally_loading_def)

lemma handleAddTask_refetch:
  assumes "resolved_ok_json (net log (post_todo u x))"
    and "returned_list (net (log @ [post_todo u x]) (get_user u)) xs"
  shows "handleAddTask net u x t log =
    (t\<lparr>todoApp.loading := False, todoApp.error := '''', todoApp.tasks := xs,
        todoApp.totalTasksCreated := length xs\<rparr>,
     log @ [post_todo u x, get_user u])"
  using assms
  by (simp add: handleAddTask_reloads TodoApp_loadTasks_returned_list TodoApp_finally_def)

lemma handleDeleteTask_refetch:
  assumes "resolved_ok (net log (delete_todo i))"
    and "returned_list (net (log @ [delete_todo i]) (get_user u)) xs"
  shows "handleDeleteTask net u i t log =
    (t\<lparr>todoApp.loading := False, todoApp.error := '''', todoApp.tasks := xs,
        todoApp.totalTasksCreated := length xs\<rparr>,
     log @ [delete_todo i, get_user u])"
  using assms
  by (simp add: handleDeleteTask_reloads TodoApp_loadTasks_returned_list TodoApp_finally_def)

lemma handleClearAll_refetch:
  assumes "all_resolve net (delete_requests (todoApp.tasks t)) log"
    and "returned_list (net (log @ delete_requests (todoApp.tasks t)) (get_user u)) xs"
  shows "handleClearAll net u t log =
    (t\<lparr>todoApp.loading := False, todoApp.error := '''', todoApp.tasks := xs,
        todoApp.totalTasksCreated := length xs\<rparr>,
     log @ delete_requests (todoApp.tasks t) @ [get_user u])"
  using assms
  by (simp add: handleClearAll_reloads TodoApp_loadTasks_returned_list TodoApp_finally_def)

text \<open>
  Claim C3. After a successful add, delete or clear-all, the task list is fetched again and
  the displayed list is exactly what the server returned; nothing is updated locally.
  Successful means: the POST or the DELETE resolved with an ok response (for
  \<open>handleAddTask\<close> of the second version its body must also be JSON, since
  \<open>todoAPI_addTask\<close> parses it), respectively none of the DELETE requests of clear-all
  rejected; and the GET that follows returned an object with the array \<open>xs\<close>. Then the
  requests issued are the mutation followed by that GET, the displayed list is \<open>xs\<close>, the
  counter is its length, the error message is empty and loading is over. The old list and
  the task text do not occur in the result.
\<close>

theorem mutation_then_refetch:
  assumes "home.username s = u"
  shows
    "(trim (inputTaskValue s) \<noteq> '''' \<and>
      resolved_ok (net log (post_todo u (trim (inputTaskValue s)))) \<and>
      returned_list (net (log @ [post_todo u (trim (inputTaskValue s))]) (get_user u)) xs \<longrightarrow>
        (let (s', log') = addTask net s log in
           log' = log @ [post_todo u (trim (inputTaskValue s)), get_user u] \<and>
           home.tasks s' = xs \<and> home.totalTasksCreated s' = length xs \<and>
           home.error s' = '''' \<and> \<not> home.loading s')) \<and>
     (resolved_ok (net log (delete_todo i)) \<and>
      returned_list (net (log @ [delete_todo i]) (get_user u)) xs \<longrightarrow>
        (let (s', log') = deleteTask net i s log in
           log' = log @ [delete_todo i, get_user u] \<and>
           home.tasks s' = xs \<and> home.totalTasksCreated s' = length xs \<and>
           home.error s' = '''' \<and> \<not> home.loading s')) \<and>
     (all_resolve net (delete_requests (home.tasks s)) log \<and>
      returned_list (net (log @ delete_requests (home.tasks s)) (get_user u)) xs \<longrightarrow>
        (let (s', log') = clearAllTasks net s log in
           log' = log @ delete_requests (home.tasks s) @ [get_user u] \<and>
           home.tasks s' = xs \<and> home.totalTasksCreated s' = length xs \<and>
           home.error s' = '''' \<and> \<not> home.loading s')) \<and>
     (resolved_ok_json (net log (post_todo u x)) \<and>
      returned_list (net (log @ [post_todo u x]) (get_user u)) xs \<longrightarrow>
        (let (t', log') = handleAddTask net u x t log in
           log' = log @ [post_todo u x, get_user u] \<and>
           todoApp.tasks t' = xs \<and> todoApp.totalTasksCreated t' = length xs \<and>
           todoApp.error t' = '''' \<and> \<not> todoApp.loading t')) \<and>
     (resolved_ok (net log (delete_todo i)) \<and>
      returned_list (net (log @ [delete_todo i]) (get_user u)) xs \<longrightarrow>
        (let (t', log') = handleDeleteTask net u i t log in
           log' = log @ [delete_todo i, get_user u] \<and>
           todoApp.tasks t' = xs \<and> todoApp.totalTasksCreated t' = length xs \<and>
           todoApp.error t' = '''' \<and> \<not> todoApp.loading t')) \<and>
     (all_resolve net (delete_requests (todoApp.tasks t)) log \<and>
      returned_list (net (log @ delete_requests (todoApp.tasks t)) (get_user u)) xs \<longrightarrow>
        (let (t', log') = handleClearAll net u t log in
           log' = log @ delete_requests (todoApp.tasks t) @ [get_user u] \<and>
           todoApp.tasks t' = xs \<and> todoApp.totalTasksCreated t' = length xs \<and>
           todoApp.error t' = '''' \<and> \<not> todoApp.loading t'))"
proof (intro conjI impI)
  assume "trim (inputTaskValue s) \<noteq> '''' \<and>
      resolved_ok (net log (post_todo u (trim (inputTaskValue s)))) \<and>
      returned_list (net (log @ [post_todo u (trim (inputTaskValue s))]) (get_user u)) xs"
  then show "let (s', log') = addTask net s log in
           log' = log @ [post_todo u (trim (inputTaskValue s)), get_user u] \<and>
           home.tasks s' = xs \<and> home.totalTasksCreated s' = length xs \<and>
           home.error s' = '''' \<and> \<not> home.loading s'"
    using assms addTask_refetch [of s net log xs] by simp
next
  assume "resolved_ok (net log (delete_todo i)) \<and>
      returned_list (net (log @ [delete_todo i]) (get_user u)) xs"
  then show "let (s', log') = deleteTask net i s log in
           log' = log @ [delete_todo i, get_user u] \<and>
           home.tasks s' = xs \<and> home.totalTasksCreated s' = length xs \<and>
           home.error s' = '''' \<and> \<not> home.loading s'"
    using assms deleteTask_refetch [of net log i s xs] by simp
next
  assume "all_resolve net (delete_requests (home.tasks s)) log \<and>
      returned_list (net (log @ delete_requests (home.tasks s)) (get_user u)) xs"
  then show "let (s', log') = clearAllTasks net s log in
           log' = log @ delete_requests (home.tasks s) @ [get_user u] \<and>
           home.tasks s' = xs \<and> home.totalTasksCreated s' = length xs \<and>
           home.error s' = '''' \<and> \<not> home.loading s'"
    using assms clearAllTasks_refetch [of net s log xs] by simp
next
  assume "resolved_ok_json (net log (post_todo u x)) \<and>
      returned_list (net (log @ [post_todo u x]) (get_user u)) xs"
  then show "let (t', log') = handleAddTask net u x t log in
           log' = log @ [post_todo u x, get_user u] \<and>
           todoApp.tasks t' = xs \<and> todoApp.totalTasksCreated t' = length xs \<and>
           todoApp.error t' = '''' \<and> \<not> todoApp.loading t'"
    using handleAddTask_refetch [of net log u x xs t] by simp
next
  assume "resolved_ok (net log (delete_todo i)) \<and>
      returned_list (net (log @ [delete_todo i]) (get_user u)) xs"
  then show "let (t', log') = handleDeleteTask net u i t log in
           log' = log @ [delete_todo i, get_user u] \<and>
           todoApp.tasks t' = xs \<and> todoApp.totalTasksCreated t' = length xs \<and>
           todoApp.error t' = '''' \<and> \<not> todoApp.loading t'"
    using handleDeleteTask_refetch [of net log i u xs t] by simp
next
  assume "all_resolve net (delete_requests (todoApp.tasks t)) log \<and>
      returned_list (net (log @ delete_requests (todoApp.tasks t)) (get_user u)) xs"
  then show "let (t', log') = handleClearAll net u t log in
           log' = log @ delete_requests (todoApp.tasks t) @ [get_user u] \<and>
           todoApp.tasks t' = xs \<and> todoApp.totalTasksCreated t' = length xs \<and>
           todoApp.error t' = '''' \<and> \<not> todoApp.loading t'"
    using handleClearAll_refetch [of net t log u xs] by simp
qed

lemma trim_walk_dog: "trim ''walk dog'' = ''walk dog''"
  by (simp add: trim_def isWhiteSpace_def)

lemma ok_201 [simp]: "ok \<lparr>status = 201, json = j\<rparr>"
  by (simp add: ok_def)

lemma not_ok_404 [simp]: "\<not> ok \<lparr>status = 404, json = j\<rparr>"
  by (simp add: ok_def)

lemma not_ok_500 [simp]: "\<not> ok \<lparr>status = 500, json = j\<rparr>"
  by (simp add: ok_def)

theorem mutation_then_refetch_witness:
  "(let s = home_init\<lparr>home.username := ''bob'', inputTaskValue := ''walk dog'',
               home.tasks := [buy_milk], home.totalTasksCreated := 1\<rparr>;
        t = todoApp_init\<lparr>todoApp.tasks := [buy_milk], todoApp.totalTasksCreated := 1\<rparr>;
        net = net_ok [buy_milk, walk_dog]
    in home.tasks (fst (addTask net s [])) = [buy_milk, walk_dog] \<and>
       snd (addTask net s []) = [post_todo ''bob'' ''walk dog'', get_user ''bob''] \<and>
       home.tasks (fst (deleteTask net 1 s [])) = [buy_milk, walk_dog] \<and>
       home.tasks (fst (clearAllTasks net s [])) = [buy_milk, walk_dog] \<and>
       snd (clearAllTasks net s []) = [delete_todo 1, get_user ''bob''] \<and>
       todoApp.tasks (fst (handleAddTask net ''bob'' ''walk dog'' t [])) = [buy_milk, walk_dog] \<and>
       todoApp.tasks (fst (handleDeleteTask net ''bob'' 1 t [])) = [buy_milk, walk_dog] \<and>
       todoApp.tasks (fst (handleClearAll net ''bob'' t [])) = [buy_milk, walk_dog])"
  using mutation_then_refetch [where s = "home_init\<lparr>home.username := ''bob'', inputTaskValue := ''walk dog'',
               home.tasks := [buy_milk], home.totalTasksCreated := 1\<rparr>"
      and t = "todoApp_init\<lparr>todoApp.tasks := [buy_milk], todoApp.totalTasksCreated := 1\<rparr>"
      and net = "net_ok [buy_milk, walk_dog]" and u = "''bob''" and log = "[]" and i = 1
      and x = "''walk dog''" and xs = "[buy_milk, walk_dog]"]
  by (simp add: trim_walk_dog net_ok_def answer_def resolved_ok_def resolved_ok_json_def
      returned_list_def all_resolve_def delete_requests_def fetch_def buy_milk_def
      split: prod.splits)

section \<open>Initialising the user\<close>

lemma initializeUser_cases:
  "initializeUser net s log =
     (let g = get_user (home.username s); p = post_user (home.username s);
          missing = got_404 (net log g);
          sent = log @ [g] @ (if missing then [p] else []);
          loads = (net log g \<noteq> Rejects \<and> (missing \<longrightarrow> net (log @ [g]) p \<noteq> Rejects))
      in if loads
         then finally_loading (loadTasks net (s\<lparr>home.loading := True, home.error := ''''\<rparr>) sent)
         else (s\<lparr>home.loading := False,
                 home.error := ''Failed to initialize user. Please try again.''\<rparr>, sent))"
  by (simp add: initializeUser_def fetch_def got_404_def finally_loading_def Let_def
      split: outcome.splits)

lemma TodoApp_initializeUser_cases:
  "TodoApp_initializeUser net u t log =
     (let g = get_user u; p = post_user u;
          missing = got_404 (net log g);
          sent = log @ [g] @ (if missing then [p] else []);
          loads = (net log g \<noteq> Rejects \<and> (missing \<longrightarrow> net (log @ [g]) p \<noteq> Rejects))
      in if loads
         then TodoApp_finally (TodoApp_loadTasks net u (t\<lparr>todoApp.loading := True, todoApp.error := ''''\<rparr>) sent)
         else (t\<lparr>todoApp.loading := False,
                 todoApp.error := ''Failed to initialize user. Please try again.''\<rparr>, sent))"
  by (simp add: TodoApp_initializeUser_def todoAPI_initializeUser_def fetch_def got_404_def
      TodoApp_finally_def Let_def split: outcome.splits)

text \<open>
  Claim C4, as amended. \<^verbatim>\<open>initializeUser\<close> first issues a GET for the user. It issues a POST
  to create the user exactly when that GET was answered with status 404. It then loads the
  task list, unless the promise of the GET or of the POST rejected: in that case no further
  request is issued, the task list is left alone and the error message is
  \<^verbatim>\<open>Failed to initialize user. Please try again.\<close> Below, \<open>sent\<close> is the log after the GET
  and the POST, \<open>loads\<close> says that neither of them rejected, and \<open>issued\<close> are the requests
  the run added to the log.
\<close>

theorem initializeUser_get_post_load:
  assumes "home.username s = u"
  shows
    "(let g = get_user u; p = post_user u;
          missing = got_404 (net log g);
          sent = log @ [g] @ (if missing then [p] else []);
          loads = (net log g \<noteq> Rejects \<and> (missing \<longrightarrow> net (log @ [g]) p \<noteq> Rejects));
          issued = drop (length log) (snd (initializeUser net s log));
          issued2 = drop (length log) (snd (TodoApp_initializeUser net u t log))
      in snd (initializeUser net s log) = sent @ (if loads then [g] else []) \<and>
         hd issued = g \<and> (\<exists>q \<in> set issued. method' q = POST) = missing \<and>
         (loads \<longrightarrow>
            fst (initializeUser net s log) =
              (fst (loadTasks net (s\<lparr>home.loading := True, home.error := ''''\<rparr>) sent))
                 \<lparr>home.loading := False\<rparr>) \<and>
         (\<not> loads \<longrightarrow>
            fst (initializeUser net s log) =
              s\<lparr>home.loading := False,
                 home.error := ''Failed to initialize user. Please try again.''\<rparr>) \<and>
         snd (TodoApp_initializeUser net u t log) = sent @ (if loads then [g] else []) \<and>
         hd issued2 = g \<and> (\<exists>q \<in> set issued2. method' q = POST) = missing \<and>
         (loads \<longrightarrow>
            fst (TodoApp_initializeUser net u t log) =
              (fst (TodoApp_loadTasks net u (t\<lparr>todoApp.loading := True, todoApp.error := ''''\<rparr>) sent))
                 \<lparr>todoApp.loading := False\<rparr>) \<and>
         (\<not> loads \<longrightarrow>
            fst (TodoApp_initializeUser net u t log) =
              t\<lparr>todoApp.loading := False,
                 todoApp.error := ''Failed to initialize user. Please try again.''\<rparr>))"
  using assms
  by (simp add: initializeUser_cases TodoApp_initializeUser_cases Let_def loadTasks_log
      TodoApp_loadTasks_log)

theorem initializeUser_get_post_load_witness:
  "snd (initializeUser (net_new_user [buy_milk]) (home_init\<lparr>home.username := ''bob''\<rparr>) []) =
     [get_user ''bob'', post_user ''bob'', get_user ''bob''] \<and>
   home.tasks (fst (initializeUser (net_new_user [buy_milk]) (home_init\<lparr>home.username := ''bob''\<rparr>) [])) =
     [buy_milk] \<and>
   snd (TodoApp_initializeUser (net_ok [buy_milk]) ''bob'' todoApp_init []) =
     [get_user ''bob'', get_user ''bob''] \<and>
   todoApp.tasks (fst (TodoApp_initializeUser (net_ok [buy_milk]) ''bob'' todoApp_init [])) =
     [buy_milk] \<and>
   fst (TodoApp_initializeUser net_offline ''bob'' todoApp_init []) =
     todoApp_init\<lparr>todoApp.error := ''Failed to initialize user. Please try again.''\<rparr>"
  using initializeUser_get_post_load [of "home_init\<lparr>home.username := ''bob''\<rparr>" "''bob''"
      "net_new_user [buy_milk]" "[]" todoApp_init]
    initializeUser_get_post_load [of "home_init\<lparr>home.username := ''bob''\<rparr>" "''bob''"
      "net_ok [buy_milk]" "[]" todoApp_init]
    initializeUser_get_post_load [of "home_init\<lparr>home.username := ''bob''\<rparr>" "''bob''"
      "net_offline" "[]" todoApp_init]
    loadTasks_returned_list [of "net_new_user [buy_milk]" "[get_user ''bob'', post_user ''bob'']"
      "home_init\<lparr>home.username := ''bob'', home.loading := True, home.error := ''''\<rparr>" "[buy_milk]"]
    TodoApp_loadTasks_returned_list [of "net_ok [buy_milk]" "[get_user ''bob'']" "''bob''" "[buy_milk]"
      "todoApp_init\<lparr>todoApp.loading := True, todoApp.error := ''''\<rparr>"]
  by (simp add: net_new_user_def net_ok_def net_offline_def answer_def got_404_def
      returned_list_def Let_def todoApp_init_def)

text \<open>
  The claim as stated fails when the GET is answered 404 and the POST rejects: the POST is
  issued, and no load follows it.
\<close>

theorem initializeUser_create_rejected_counterexample:
  "got_404 (net_create_rejects [] (get_user ''bob'')) \<and>
   snd (initializeUser net_create_rejects (home_init\<lparr>home.username := ''bob''\<rparr>) []) =
     [get_user ''bob'', post_user ''bob''] \<and>
   fst (initializeUser net_create_rejects (home_init\<lparr>home.username := ''bob''\<rparr>) []) =
     home_init\<lparr>home.username := ''bob'',
       home.error := ''Failed to initialize user. Please try again.''\<rparr> \<and>
   TodoApp_initializeUser net_create_rejects ''bob'' todoApp_init [] =
     (todoApp_init\<lparr>todoApp.error := ''Failed to initialize user. Please try again.''\<rparr>,
      [get_user ''bob'', post_user ''bob''])"
  by (simp add: initializeUser_def TodoApp_initializeUser_def todoAPI_initializeUser_def
      net_create_rejects_def got_404_def fetch_def finally_loading_def TodoApp_finally_def
      home_init_def todoApp_init_def)

section \<open>Clear all and a DELETE that fails\<close>

text \<open>
  Claim C1 says that if any one of the DELETE requests of clear-all fails, the operation
  throws and the reload is skipped. The code does this only for a DELETE whose promise
  rejects (\<open>clearAllTasks_aborts\<close>, \<open>handleClearAll_aborts\<close>). A DELETE that is answered
  with an error status resolves, and \<^verbatim>\<open>Promise.all\<close> resolves with it. In the run below the
  only DELETE is answered with status 500. \<open>deleteTask\<close> reports that answer as
  \<^verbatim>\<open>Failed to delete task\<close>; \<open>clearAllTasks\<close> and \<open>handleClearAll\<close> go on to the reload and
  end with no error message.
\<close>

theorem clearAll_reloads_after_failed_delete:
  "\<not> resolved_ok (net_delete_500 [buy_milk] [] (delete_todo (id' buy_milk))) \<and>
   clearAllTasks (net_delete_500 [buy_milk])
     (home_init\<lparr>home.username := ''bob'', home.tasks := [buy_milk], home.totalTasksCreated := 1\<rparr>) [] =
     (home_init\<lparr>home.username := ''bob'', home.tasks := [buy_milk], home.totalTasksCreated := 1\<rparr>,
      [delete_todo 1, get_user ''bob'']) \<and>
   handleClearAll (net_delete_500 [buy_milk]) ''bob''
     (todoApp_init\<lparr>todoApp.tasks := [buy_milk], todoApp.totalTasksCreated := 1\<rparr>) [] =
     (todoApp_init\<lparr>todoApp.tasks := [buy_milk], todoApp.totalTasksCreated := 1\<rparr>,
      [delete_todo 1, get_user ''bob'']) \<and>
   deleteTask (net_delete_500 [buy_milk]) 1
     (home_init\<lparr>home.username := ''bob'', home.tasks := [buy_milk], home.totalTasksCreated := 1\<rparr>) [] =
     (home_init\<lparr>home.username := ''bob'', home.tasks := [buy_milk], home.totalTasksCreated := 1,
        home.error := ''Failed to delete task. Please try again.''\<rparr>,
      [delete_todo 1])"
  by (simp add: clearAllTasks_def handleClearAll_def todoAPI_clearAllTasks_def deleteTask_def
      loadTasks_def TodoApp_loadTasks_def todoAPI_getUserTasks_def
      net_delete_500_def answer_def resolved_ok_def fetch_def finally_loading_def TodoApp_finally_def
      or_array_def or_number_def opt_length_def
      home_init_def todoApp_init_def buy_milk_def)

end
